theory Spec2Isabelle
  imports Main "HOL-Library.Char_ord" "HOL-Library.List_Lexorder"
begin

section \<open>Python values: strings, errors, paths\<close>

text \<open>
  The program is \<^verbatim>\<open>src/build_index.py\<close>. A Python \<^verbatim>\<open>str\<close> is modelled as a
  \<^typ>\<open>string\<close>; a \<^typ>\<open>char\<close> stands for a code point below 256. Every exception
  the code can raise is a constructor of \<open>error\<close>, and a function that can raise returns
  \<open>error + 'a\<close> with \<open>Inl\<close> for the exception.
\<close>

datatype error =
  KeyError | IndexError | ValueError | TypeError | UnboundLocalError
  | CalledProcessError | OSError

text \<open>\<^verbatim>\<open>s.split(sep)\<close> for a one-character separator: never an empty list.\<close>

fun str_split :: "char \<Rightarrow> string \<Rightarrow> string list" where
  "str_split sep [] = [[]]"
| "str_split sep (c # cs) =
     (if c = sep then [] # str_split sep cs
      else (case str_split sep cs of
              [] \<Rightarrow> [[c]]
            | field # rest \<Rightarrow> (c # field) # rest))"

text \<open>
  \<^verbatim>\<open>ch.isdigit()\<close> on a code point below 256: the ASCII digits and the three
  superscript digits U+00B2, U+00B3 and U+00B9.
\<close>

definition isdigit :: "char \<Rightarrow> bool" where
  "isdigit ch =
     (let n = (of_char ch :: nat)
      in (48 \<le> n \<and> n \<le> 57) \<or> n = 178 \<or> n = 179 \<or> n = 185)"

definition endswith :: "string \<Rightarrow> string \<Rightarrow> bool" where
  "endswith s suffix =
     (length suffix \<le> length s \<and> drop (length s - length suffix) s = suffix)"

text \<open>\<^verbatim>\<open>s.replace(a, b)\<close> for one-character \<open>a\<close> and \<open>b\<close>.\<close>

definition str_replace :: "char \<Rightarrow> char \<Rightarrow> string \<Rightarrow> string" where
  "str_replace a b s = map (\<lambda>c. if c = a then b else c) s"

text \<open>
  A \<^verbatim>\<open>pathlib.Path\<close> on POSIX: the anchor (empty, one slash or two) and the
  components, where empty components and \<^verbatim>\<open>.\<close> are dropped on construction.
\<close>

record path =
  anchor :: string
  parts :: "string list"

definition path_parts :: "string \<Rightarrow> string list" where
  "path_parts s = filter (\<lambda>p. p \<noteq> [] \<and> p \<noteq> ''.'') (str_split CHR ''/'' s)"

definition path_anchor :: "string \<Rightarrow> string" where
  "path_anchor s =
     (case s of
        a # b # c # _ \<Rightarrow>
          (if a = CHR ''/'' \<and> b = CHR ''/'' \<and> c \<noteq> CHR ''/'' then ''//''
           else if a = CHR ''/'' then ''/'' else [])
      | [a, b] \<Rightarrow>
          (if a = CHR ''/'' \<and> b = CHR ''/'' then ''//''
           else if a = CHR ''/'' then ''/'' else [])
      | [a] \<Rightarrow> (if a = CHR ''/'' then ''/'' else [])
      | [] \<Rightarrow> [])"

definition Path :: "string \<Rightarrow> path" where
  "Path s = \<lparr>anchor = path_anchor s, parts = path_parts s\<rparr>"

text \<open>\<^verbatim>\<open>p / s\<close>: an absolute right operand replaces the left one.\<close>

definition path_div :: "path \<Rightarrow> string \<Rightarrow> path" where
  "path_div p s =
     (if path_anchor s \<noteq> [] then Path s
      else p\<lparr>parts := parts p @ path_parts s\<rparr>)"

text \<open>\<^verbatim>\<open>p.name\<close>: the last component, or the empty string when there is none.\<close>

definition path_name :: "path \<Rightarrow> string" where
  "path_name p = (case parts p of [] \<Rightarrow> [] | _ \<Rightarrow> last (parts p))"

fun join_with :: "string \<Rightarrow> string list \<Rightarrow> string" where
  "join_with sep [] = []"
| "join_with sep [x] = x"
| "join_with sep (x # y # ys) = x @ sep @ join_with sep (y # ys)"

text \<open>\<^verbatim>\<open>str(p)\<close>.\<close>

definition path_str :: "path \<Rightarrow> string" where
  "path_str p =
     (if anchor p = [] \<and> parts p = [] then ''.''
      else anchor p @ join_with ''/'' (parts p))"

section \<open>The outside world\<close>

text \<open>
  The parsed configuration is a dictionary whose values are strings or sequences of
  strings. Everything the program asks of its environment is a field of \<open>world\<close>:
  whether the configuration file is there (and what it parses to), the entries of each
  directory, whether a path exists or is a directory, whether an external action succeeds
  or which exception it raises, and the output of \<^verbatim>\<open>git tag\<close> in a clone. The
  fields \<open>wheelhouse\<close> and \<open>written\<close> change as the program copies wheels and writes
  index pages; the others are read only.
\<close>

datatype yaml = YStr string | YSeq "string list"

datatype action =
    Makedirs string
  | Run "string list" "path option"
  | Rmtree path
  | OpenWrite path

record world =
  config_file :: "(string \<rightharpoonup> yaml) option"
  wheelhouse :: "path \<Rightarrow> string list"
  is_dir :: "path \<Rightarrow> bool"
  path_exists :: "path \<Rightarrow> bool"
  outcome :: "action \<Rightarrow> error option"
  git_tag :: "path \<Rightarrow> error + string list"
  written :: "path \<rightharpoonup> string"

text \<open>Actions in sequence; the first one that raises ends the sequence.\<close>

fun perform :: "world \<Rightarrow> action list \<Rightarrow> error + unit" where
  "perform w [] = Inr ()"
| "perform w (a # as) =
     (case outcome w a of Some e \<Rightarrow> Inl e | None \<Rightarrow> perform w as)"

text \<open>\<^verbatim>\<open>package_path.glob('*.whl')\<close>, in the order the directory gives.\<close>

definition glob_whl :: "world \<Rightarrow> path \<Rightarrow> string list" where
  "glob_whl w dir = filter (\<lambda>name. endswith name ''.whl'') (wheelhouse w dir)"

definition add_entry :: "string \<Rightarrow> string list \<Rightarrow> string list" where
  "add_entry name entries = (if name \<in> set entries then entries else entries @ [name])"

section \<open>The class WheelhouseBuilder\<close>

record builder =
  repos_cfg :: yaml
  clone_dir :: path
  package_names :: "string list"
  existing_versions :: "string \<rightharpoonup> string list"
  needed_versions :: "string \<rightharpoonup> string list"

text \<open>The property \<^verbatim>\<open>repos\<close>: \<^verbatim>\<open>tuple(self.__repos)\<close>; a string iterates by character.\<close>

definition tuple_of :: "yaml \<Rightarrow> string list" where
  "tuple_of y = (case y of YSeq rs \<Rightarrow> rs | YStr s \<Rightarrow> map (\<lambda>c. [c]) s)"

definition repos :: "builder \<Rightarrow> string list" where
  "repos b = tuple_of (repos_cfg b)"

text \<open>\<^verbatim>\<open>repo.split('/')[-1]\<close>.\<close>

definition package_name_from_repo :: "string \<Rightarrow> error + string" where
  "package_name_from_repo repo =
     (case str_split CHR ''/'' repo of
        [] \<Rightarrow> Inl IndexError
      | segment # segments \<Rightarrow> Inr (last (segment # segments)))"

definition repo_owner_and_package_name_from_repo :: "string \<Rightarrow> string list" where
  "repo_owner_and_package_name_from_repo repo = str_split CHR ''/'' repo"

text \<open>The unpacking \<^verbatim>\<open>repo_owner,package_name = ...\<close> of lines 83 and 126.\<close>

definition unpack2 :: "string list \<Rightarrow> error + string \<times> string" where
  "unpack2 xs = (case xs of [a, b] \<Rightarrow> Inr (a, b) | _ \<Rightarrow> Inl ValueError)"

definition pypi_root_directory :: path where
  "pypi_root_directory = Path ''simple/''"

definition package_path_from_package_name :: "string \<Rightarrow> path" where
  "package_path_from_package_name package_name =
     path_div pypi_root_directory package_name"

definition make_dirs :: "world \<Rightarrow> builder \<Rightarrow> error + unit" where
  "make_dirs w b =
     perform w
       (Makedirs (path_str pypi_root_directory)
        # map (\<lambda>package_name.
                 Makedirs (path_str (package_path_from_package_name package_name)))
            (package_names b)
        @ [Makedirs (''./'' @ path_str (clone_dir b))])"

text \<open>
  The inner loop of \<^verbatim>\<open>_detect_existing\<close> (lines 72 to 79) over the globbed
  filenames, with \<open>package_list\<close> as built so far.
\<close>

fun scan_wheels :: "string \<Rightarrow> string list \<Rightarrow> string list \<Rightarrow> error + string list" where
  "scan_wheels package_name package_list [] = Inr package_list"
| "scan_wheels package_name package_list (filename # filenames) =
     (case str_split CHR ''-'' filename of
        whl_package # whl_version # _ \<Rightarrow>
          (if whl_package = package_name then
             (case whl_version of
                [] \<Rightarrow> Inl IndexError
              | ch # _ \<Rightarrow>
                  (if isdigit ch
                   then scan_wheels package_name
                          (package_list @ [whl_version] @ [''v'' @ whl_version]) filenames
                   else scan_wheels package_name (package_list @ [whl_version]) filenames))
           else scan_wheels package_name package_list filenames)
      | _ \<Rightarrow> Inl IndexError)"

text \<open>The outer loop of \<^verbatim>\<open>_detect_existing\<close> over the package names.\<close>

fun detect_existing_loop ::
  "world \<Rightarrow> string list \<Rightarrow> (string \<rightharpoonup> string list) \<Rightarrow> error + (string \<rightharpoonup> string list)" where
  "detect_existing_loop w [] ev = Inr ev"
| "detect_existing_loop w (package_name # rest) ev =
     (case scan_wheels package_name []
             (glob_whl w (package_path_from_package_name package_name)) of
        Inl e \<Rightarrow> Inl e
      | Inr package_list \<Rightarrow> detect_existing_loop w rest (ev(package_name \<mapsto> package_list)))"

definition detect_existing :: "world \<Rightarrow> builder \<Rightarrow> error + builder" where
  "detect_existing w b =
     (case detect_existing_loop w (package_names b) (existing_versions b) of
        Inl e \<Rightarrow> Inl e
      | Inr ev \<Rightarrow> Inr (b\<lparr>existing_versions := ev\<rparr>))"

text \<open>The list comprehension of line 20.\<close>

fun package_names_of :: "string list \<Rightarrow> error + string list" where
  "package_names_of [] = Inr []"
| "package_names_of (repo_name # rest) =
     (case package_name_from_repo repo_name of
        Inl e \<Rightarrow> Inl e
      | Inr name \<Rightarrow>
          (case package_names_of rest of
             Inl e \<Rightarrow> Inl e
           | Inr names \<Rightarrow> Inr (name # names)))"

text \<open>\<^verbatim>\<open>__init__\<close>: a missing key raises KeyError, a non-string directory TypeError.\<close>

definition WheelhouseBuilder_init :: "world \<Rightarrow> (string \<rightharpoonup> yaml) \<Rightarrow> error + builder" where
  "WheelhouseBuilder_init w config =
     (case config ''repos'' of
        None \<Rightarrow> Inl KeyError
      | Some r \<Rightarrow>
          (case config ''clone_dir'' of
             None \<Rightarrow> Inl KeyError
           | Some (YSeq _) \<Rightarrow> Inl TypeError
           | Some (YStr d) \<Rightarrow>
               (case package_names_of (tuple_of r) of
                  Inl e \<Rightarrow> Inl e
                | Inr names \<Rightarrow>
                    (let b = \<lparr>repos_cfg = r, clone_dir = Path d, package_names = names,
                              existing_versions = Map.empty, needed_versions = Map.empty\<rparr>
                     in case make_dirs w b of
                          Inl e \<Rightarrow> Inl e
                        | Inr _ \<Rightarrow> detect_existing w b))))"

section \<open>Version reconciliation (line 92)\<close>

text \<open>\<^verbatim>\<open>version in existing\<close> on a tuple: a left-to-right search by equality.\<close>

fun tuple_contains :: "string list \<Rightarrow> string \<Rightarrow> bool" where
  "tuple_contains [] version = False"
| "tuple_contains (e # es) version = (version = e \<or> tuple_contains es version)"

text \<open>
  The list comprehension
  \<^verbatim>\<open>[version for version in available_versions if version not in existing]\<close>.
\<close>

fun needed_of :: "string list \<Rightarrow> string list \<Rightarrow> string list" where
  "needed_of existing [] = []"
| "needed_of existing (version # available_versions) =
     (if \<not> tuple_contains existing version
      then version # needed_of existing available_versions
      else needed_of existing available_versions)"

text \<open>The number of membership tests the comprehension performs.\<close>

fun needed_of_tests :: "string list \<Rightarrow> string list \<Rightarrow> nat" where
  "needed_of_tests existing [] = 0"
| "needed_of_tests existing (version # available_versions) =
     Suc (needed_of_tests existing available_versions)"

text \<open>
  The specification's wording of the output: every tag of \<open>tags\<close> that is absent from
  \<open>existing\<close>, in the order of \<open>tags\<close>.
\<close>

definition needed_spec :: "string set \<Rightarrow> string list \<Rightarrow> string list" where
  "needed_spec existing tags = filter (\<lambda>tag. tag \<notin> existing) tags"

section \<open>Cloning and reconciling (lines 82 to 96)\<close>

text \<open>
  \<^verbatim>\<open>_clone_repo\<close>. The subscript \<^verbatim>\<open>self.existing_versions[package_name]\<close> sits in
  the condition of the comprehension, so it is evaluated (and can raise KeyError) only
  when there is at least one tag.
\<close>

definition clone_repo :: "world \<Rightarrow> builder \<Rightarrow> string \<Rightarrow> error + builder" where
  "clone_repo w b repo =
     (case unpack2 (repo_owner_and_package_name_from_repo repo) of
        Inl e \<Rightarrow> Inl e
      | Inr (repo_owner, package_name) \<Rightarrow>
          (let git_clone_path = path_div (clone_dir b) package_name
           in case perform w
                     (if \<not> is_dir w (path_div git_clone_path ''.git'')
                      then [Run [''git'', ''clone'',
                                 ''git@github.com:'' @ repo_owner @ ''/'' @ package_name @ ''.git'']
                              (Some (clone_dir b))]
                      else [Run [''git'', ''checkout'', ''main''] (Some git_clone_path),
                            Run [''git'', ''pull''] (Some git_clone_path),
                            Run [''git'', ''checkout'', ''main''] (Some git_clone_path)]) of
                Inl e \<Rightarrow> Inl e
              | Inr _ \<Rightarrow>
                  (case git_tag w git_clone_path of
                     Inl e \<Rightarrow> Inl e
                   | Inr available_versions \<Rightarrow>
                       (case available_versions of
                          [] \<Rightarrow> Inr (b\<lparr>needed_versions := (needed_versions b)(package_name \<mapsto> [])\<rparr>)
                        | _ \<Rightarrow>
                            (case existing_versions b package_name of
                               None \<Rightarrow> Inl KeyError
                             | Some existing \<Rightarrow>
                                 Inr (b\<lparr>needed_versions := (needed_versions b)
                                         (package_name \<mapsto> needed_of existing available_versions)\<rparr>))))))"

fun clone_repos_loop :: "world \<Rightarrow> builder \<Rightarrow> string list \<Rightarrow> error + builder" where
  "clone_repos_loop w b [] = Inr b"
| "clone_repos_loop w b (repo # rest) =
     (case clone_repo w b repo of
        Inl e \<Rightarrow> Inl e
      | Inr b' \<Rightarrow> clone_repos_loop w b' rest)"

definition clone_repos :: "world \<Rightarrow> builder \<Rightarrow> error + builder" where
  "clone_repos w b = clone_repos_loop w b (repos b)"

section \<open>Building and copying (lines 105 to 128)\<close>

text \<open>
  The loop \<^verbatim>\<open>for index,ch in enumerate(version)\<close> with its \<^verbatim>\<open>break\<close>: the value of
  \<open>index\<close> after the loop, given its value before (\<open>None\<close> when unbound).
\<close>

fun enumerate_break :: "string \<Rightarrow> nat \<Rightarrow> nat option \<Rightarrow> nat option" where
  "enumerate_break [] i index = index"
| "enumerate_break (ch # rest) i index =
     (if isdigit ch then Some i else enumerate_break rest (Suc i) (Some i))"

fun build_versions ::
  "world \<Rightarrow> path \<Rightarrow> string \<Rightarrow> nat option \<Rightarrow> string list \<Rightarrow> error + world" where
  "build_versions w git_clone_path package_name index [] = Inr w"
| "build_versions w git_clone_path package_name index (version # rest) =
     (case perform w
             ([Run [''git'', ''checkout'', version] (Some git_clone_path)]
              @ map Rmtree
                  (filter (path_exists w)
                     [path_div git_clone_path ''dist'', path_div git_clone_path ''build''])
              @ [Run [''python'', ''-m'', ''build'', ''--wheel''] (Some git_clone_path)]) of
        Inl e \<Rightarrow> Inl e
      | Inr _ \<Rightarrow>
          (case enumerate_break version 0 index of
             None \<Rightarrow> Inl UnboundLocalError
           | Some i \<Rightarrow>
               (let built_package_name = str_replace CHR ''-'' CHR ''_'' package_name;
                    from_path = path_div git_clone_path
                      (''dist/'' @ built_package_name @ ''-'' @ drop i version
                       @ ''-py3-none-any.whl'');
                    package_path = package_path_from_package_name package_name;
                    to_path = path_div package_path (path_name from_path)
                in case outcome w (Run [''cp'', path_str from_path, path_str to_path] None) of
                     Some e \<Rightarrow> Inl e
                   | None \<Rightarrow>
                       build_versions
                         (w\<lparr>wheelhouse := (wheelhouse w)
                              (package_path := add_entry (path_name from_path)
                                                 (wheelhouse w package_path))\<rparr>)
                         git_clone_path package_name (Some i) rest)))"

definition build_and_copy_wheels :: "world \<Rightarrow> builder \<Rightarrow> path \<Rightarrow> error + world" where
  "build_and_copy_wheels w b git_clone_path =
     (let package_name = path_name git_clone_path
      in case needed_versions b package_name of
           None \<Rightarrow> Inl KeyError
         | Some versions \<Rightarrow> build_versions w git_clone_path package_name None versions)"

fun build_all_loop :: "world \<Rightarrow> builder \<Rightarrow> string list \<Rightarrow> error + world" where
  "build_all_loop w b [] = Inr w"
| "build_all_loop w b (repo # rest) =
     (case unpack2 (repo_owner_and_package_name_from_repo repo) of
        Inl e \<Rightarrow> Inl e
      | Inr (repo_owner, package_name) \<Rightarrow>
          (case build_and_copy_wheels w b (path_div (clone_dir b) package_name) of
             Inl e \<Rightarrow> Inl e
           | Inr w' \<Rightarrow> build_all_loop w' b rest))"

definition build_all :: "world \<Rightarrow> builder \<Rightarrow> error + world" where
  "build_all w b = build_all_loop w b (repos b)"

section \<open>Index pages (lines 130 to 154)\<close>

definition html_header :: string where
  "html_header = ''<!DOCTYPE html>'' @ [CHR 0x0A] @ ''<html>'' @ [CHR 0x0A]
                 @ ''  <body>'' @ [CHR 0x0A]"

definition html_footer :: string where
  "html_footer = ''  </body>'' @ [CHR 0x0A] @ ''</html>''"

text \<open>The formatted strings of lines 141 and 152.\<close>

definition wheel_line :: "string \<Rightarrow> string \<Rightarrow> string" where
  "wheel_line filename whl_version =
     ''    <a href='' @ [CHR 0x22] @ filename @ [CHR 0x22] @ ''>v'' @ whl_version
     @ ''</a><br>'' @ [CHR 0x0A]"

definition package_line :: "string \<Rightarrow> string" where
  "package_line package_name =
     ''    <a href='' @ [CHR 0x22] @ package_name @ ''/'' @ [CHR 0x22] @ ''>''
     @ package_name @ ''</a><br>'' @ [CHR 0x0A]"

text \<open>
  The loop of \<^verbatim>\<open>_create_index\<close> (lines 136 to 141) over the sorted filenames, with
  the text written to the file so far.
\<close>

fun index_entries :: "string \<Rightarrow> string \<Rightarrow> string list \<Rightarrow> error + string" where
  "index_entries package_name out [] = Inr out"
| "index_entries package_name out (filename # filenames) =
     (case str_split CHR ''-'' filename of
        whl_package # whl_version # _ \<Rightarrow>
          (if whl_package = package_name
           then index_entries package_name (out @ wheel_line filename whl_version) filenames
           else index_entries package_name out filenames)
      | _ \<Rightarrow> Inl IndexError)"

text \<open>
  The text of a package's index page, from the entries that the glob returns. The
  paths being sorted share their directory, so their order is that of the names.
\<close>

definition index_html :: "string \<Rightarrow> string list \<Rightarrow> error + string" where
  "index_html package_name globbed =
     (case index_entries package_name html_header (sort globbed) of
        Inl e \<Rightarrow> Inl e
      | Inr out \<Rightarrow> Inr (out @ html_footer))"

definition create_index :: "world \<Rightarrow> string \<Rightarrow> error + world" where
  "create_index w package_name =
     (let package_path = package_path_from_package_name package_name;
          index_path = path_div package_path ''index.html''
      in case outcome w (OpenWrite index_path) of
           Some e \<Rightarrow> Inl e
         | None \<Rightarrow>
             (case index_html package_name (glob_whl w package_path) of
                Inl e \<Rightarrow> Inl e
              | Inr text \<Rightarrow>
                  Inr (w\<lparr>wheelhouse := (wheelhouse w)
                           (package_path := add_entry ''index.html'' (wheelhouse w package_path)),
                         written := (written w)(index_path \<mapsto> text)\<rparr>)))"

fun create_indices_loop :: "world \<Rightarrow> string \<Rightarrow> string list \<Rightarrow> error + world \<times> string" where
  "create_indices_loop w out [] = Inr (w, out)"
| "create_indices_loop w out (package_name # rest) =
     (case create_index w package_name of
        Inl e \<Rightarrow> Inl e
      | Inr w' \<Rightarrow> create_indices_loop w' (out @ package_line package_name) rest)"

text \<open>
  Closing a file that was opened for writing: the text the handle still buffers goes to
  the start of the file, over what the file holds by then. What the file holds beyond
  the length of that text stays.
\<close>

definition close_over :: "string \<Rightarrow> string option \<Rightarrow> string" where
  "close_over buffered present =
     buffered @ drop (length buffered) (case present of None \<Rightarrow> [] | Some text \<Rightarrow> text)"

text \<open>
  \<^verbatim>\<open>create_indices\<close>. Opening the root page empties it; its text stays in the handle
  while the package pages are written and reaches the file when the \<^verbatim>\<open>with\<close> block
  ends. For a package name that is empty or \<^verbatim>\<open>.\<close> the package page is this same
  file, written and closed in between, so that the root text then replaces its beginning
  only. Positions count characters, one byte each in the file.
\<close>

definition create_indices :: "world \<Rightarrow> builder \<Rightarrow> error + world" where
  "create_indices w b =
     (let root_index = path_div pypi_root_directory ''index.html''
      in case outcome w (OpenWrite root_index) of
           Some e \<Rightarrow> Inl e
         | None \<Rightarrow>
             (case create_indices_loop
                     (w\<lparr>wheelhouse := (wheelhouse w)
                           (pypi_root_directory :=
                              add_entry ''index.html'' (wheelhouse w pypi_root_directory)),
                         written := (written w)(root_index \<mapsto> [])\<rparr>)
                     html_header (package_names b) of
                Inl e \<Rightarrow> Inl e
              | Inr (w', out) \<Rightarrow>
                  Inr (w'\<lparr>written := (written w')
                            (root_index \<mapsto>
                               close_over (out @ html_footer) (written w' root_index))\<rparr>)))"

section \<open>The entry point (lines 157 to 169)\<close>

text \<open>
  \<^verbatim>\<open>main\<close>, after argument parsing: \<open>config_file w\<close> is \<open>None\<close> when
  \<^verbatim>\<open>config_file_path.is_file()\<close> is false, and the configuration then stays the empty
  dictionary.
\<close>

definition load_config :: "world \<Rightarrow> (string \<rightharpoonup> yaml)" where
  "load_config w = (case config_file w of None \<Rightarrow> Map.empty | Some config \<Rightarrow> config)"

definition main :: "world \<Rightarrow> error + world" where
  "main w =
     (case WheelhouseBuilder_init w (load_config w) of
        Inl e \<Rightarrow> Inl e
      | Inr builder \<Rightarrow>
          (case clone_repos w builder of
             Inl e \<Rightarrow> Inl e
           | Inr builder' \<Rightarrow>
               (case build_all w builder' of
                  Inl e \<Rightarrow> Inl e
                | Inr w' \<Rightarrow> create_indices w' builder')))"

section \<open>The specification's wording, and example inputs\<close>

text \<open>The fields of an artifact filename: what the split on the delimiter gives.\<close>

definition name_fields :: "string \<Rightarrow> string list" where
  "name_fields filename = str_split CHR ''-'' filename"

text \<open>
  What the specification registers for one version token: the token, and the token with
  the prefix character when the token starts with a digit.
\<close>

definition registered_forms :: "string \<Rightarrow> string list" where
  "registered_forms token =
     (case token of
        [] \<Rightarrow> [token]
      | ch # _ \<Rightarrow> (if isdigit ch then [token, CHR ''v'' # token] else [token]))"

definition existing_spec :: "string \<Rightarrow> string list \<Rightarrow> string list" where
  "existing_spec package_name filenames =
     concat (map (\<lambda>filename. registered_forms (name_fields filename ! 1))
               (filter (\<lambda>filename. name_fields filename ! 0 = package_name) filenames))"

text \<open>
  The specification's wording of a package's index page: the artifacts it lists are
  those whose first field is the package name, sorted by filename.
\<close>

definition indexed_files :: "string \<Rightarrow> string list \<Rightarrow> string list" where
  "indexed_files package_name globbed =
     filter (\<lambda>filename. name_fields filename ! 0 = package_name) (sort globbed)"

text \<open>
  The anchor the specification lists for an artifact: the filename as target, and the
  letter v and the filename's second field as text.
\<close>

definition listed_anchor :: "string \<Rightarrow> string" where
  "listed_anchor filename =
     ''<a href='' @ [CHR 0x22] @ filename @ [CHR 0x22] @ ''>v'' @ name_fields filename ! 1
     @ ''</a>''"

text \<open>
  The page: three opening lines, one indented line per listed artifact that holds its
  anchor and a line break, and the two closing lines, the last without a newline.
\<close>

definition index_spec :: "string \<Rightarrow> string list \<Rightarrow> string" where
  "index_spec package_name globbed =
     ''<!DOCTYPE html>'' @ [CHR 0x0A] @ ''<html>'' @ [CHR 0x0A] @ ''  <body>'' @ [CHR 0x0A]
     @ concat (map (\<lambda>filename. ''    '' @ listed_anchor filename @ ''<br>'' @ [CHR 0x0A])
                 (indexed_files package_name globbed))
     @ ''  </body>'' @ [CHR 0x0A] @ ''</html>''"

text \<open>
  An example: one repository \<^verbatim>\<open>acme/foo\<close>, one published wheel, two tags, and
  every external action succeeding.
\<close>

definition demo_world :: world where
  "demo_world =
     \<lparr>config_file =
        Some [''repos'' \<mapsto> YSeq [''acme/foo''], ''clone_dir'' \<mapsto> YStr ''clones''],
      wheelhouse = (\<lambda>dir. if dir = Path ''simple/foo''
                          then [''foo-1.2.3-py3-none-any.whl'', ''index.html''] else []),
      is_dir = (\<lambda>_. False),
      path_exists = (\<lambda>_. False),
      outcome = (\<lambda>_. None),
      git_tag = (\<lambda>_. Inr [''v1.2.3'', ''v1.3.0'']),
      written = Map.empty\<rparr>"

definition demo_builder :: builder where
  "demo_builder =
     \<lparr>repos_cfg = YSeq [''acme/foo''],
      clone_dir = Path ''clones'',
      package_names = [''foo''],
      existing_versions = [''foo'' \<mapsto> [''1.2.3'', ''v1.2.3'']],
      needed_versions = Map.empty\<rparr>"

section \<open>Lemmas\<close>

subsection \<open>Splitting and unpacking\<close>

lemma str_split_not_Nil: "str_split sep s \<noteq> []"
  by (induction s) (auto split: list.splits)

lemma length_str_split: "length (str_split sep s) = Suc (length (filter (\<lambda>c. c = sep) s))"
  by (induction s) (auto split: list.splits simp: str_split_not_Nil)

lemma fields_two:
  "2 \<le> length (name_fields f) \<Longrightarrow> \<exists>rest. name_fields f = (name_fields f ! 0) # (name_fields f ! 1) # rest"
  by (cases "name_fields f"; cases "tl (name_fields f)") auto

lemma fields_short: "length (name_fields f) < 2 \<Longrightarrow> \<exists>a. name_fields f = [a]"
  by (cases "name_fields f"; cases "tl (name_fields f)") (auto simp: name_fields_def str_split_not_Nil)

lemma unpack2_Inr: "unpack2 xs = Inr (a, b) \<longleftrightarrow> xs = [a, b]"
  by (auto simp: unpack2_def split: list.splits)

lemma unpack2_bad: "length xs \<noteq> 2 \<Longrightarrow> unpack2 xs = Inl ValueError"
  by (cases xs; cases "tl xs"; cases "tl (tl xs)") (auto simp: unpack2_def)

lemma unpack_repo_bad:
  "length (filter (\<lambda>c. c = CHR ''/'') repo) \<noteq> 1 \<Longrightarrow>
   unpack2 (repo_owner_and_package_name_from_repo repo) = Inl ValueError"
  by (rule unpack2_bad) (simp add: repo_owner_and_package_name_from_repo_def length_str_split)

lemma package_name_from_repo_total:
  "package_name_from_repo repo = Inr (last (str_split CHR ''/'' repo))"
  using str_split_not_Nil [of "CHR ''/''" repo]
  by (cases "str_split CHR ''/'' repo") (auto simp: package_name_from_repo_def)

subsection \<open>The comprehension of line 92\<close>

lemma tuple_contains_set: "tuple_contains es v \<longleftrightarrow> v \<in> set es"
  by (induction es) auto

lemma needed_of_filter: "needed_of existing tags = needed_spec (set existing) tags"
  by (induction tags) (auto simp: needed_spec_def tuple_contains_set)

lemma needed_of_tests_length: "needed_of_tests existing tags = length tags"
  by (induction tags) auto

lemma set_needed_of: "set (needed_of existing tags) = set tags - set existing"
  by (auto simp: needed_of_filter needed_spec_def)

lemma needed_of_Nil_iff: "needed_of existing tags = [] \<longleftrightarrow> set tags \<subseteq> set existing"
  by (auto simp: needed_of_filter needed_spec_def filter_empty_conv)

lemma needed_of_all_iff: "needed_of existing tags = tags \<longleftrightarrow> set existing \<inter> set tags = {}"
  by (auto simp: needed_of_filter needed_spec_def filter_id_conv)

subsection \<open>Cloning and building, one repository at a time\<close>

lemma clone_repo_needed:
  assumes "clone_repo w b repo = Inr b'"
    and "unpack2 (repo_owner_and_package_name_from_repo repo) = Inr (repo_owner, package_name)"
    and "git_tag w (path_div (clone_dir b) package_name) = Inr tags"
    and "existing_versions b package_name = Some existing"
  shows "needed_versions b' package_name = Some (needed_of existing tags)"
  using assms
  by (auto simp: clone_repo_def Let_def split: sum.splits list.splits option.splits)

lemma clone_repo_idem:
  "clone_repo w b repo = Inr b' \<Longrightarrow> clone_repo w b' repo = Inr b'"
  by (auto simp: clone_repo_def Let_def split: sum.splits list.splits option.splits prod.splits)

lemma clone_repo_bad:
  "length (filter (\<lambda>c. c = CHR ''/'') repo) \<noteq> 1 \<Longrightarrow> clone_repo w b repo = Inl ValueError"
  by (simp add: clone_repo_def unpack_repo_bad)

lemma clone_repos_loop_bad:
  "repo \<in> set rs \<Longrightarrow> length (filter (\<lambda>c. c = CHR ''/'') repo) \<noteq> 1 \<Longrightarrow>
   \<exists>e. clone_repos_loop w b rs = Inl e"
proof (induction rs arbitrary: b)
  case Nil
  then show ?case by simp
next
  case (Cons r rs)
  show ?case
  proof (cases "clone_repo w b r")
    case (Inl e)
    then show ?thesis by simp
  next
    case (Inr b')
    with clone_repo_bad Cons.prems have "repo \<in> set rs" by fastforce
    from Cons.IH [OF this Cons.prems(2)] Inr show ?thesis by simp
  qed
qed

lemma build_all_loop_bad_head:
  "length (filter (\<lambda>c. c = CHR ''/'') repo) \<noteq> 1 \<Longrightarrow>
   build_all_loop w b (repo # rest) = Inl ValueError"
  by (simp add: unpack_repo_bad)

lemma build_all_loop_bad:
  "repo \<in> set rs \<Longrightarrow> length (filter (\<lambda>c. c = CHR ''/'') repo) \<noteq> 1 \<Longrightarrow>
   \<exists>e. build_all_loop w b rs = Inl e"
proof (induction rs arbitrary: w)
  case Nil
  then show ?case by simp
next
  case (Cons r rs)
  show ?case
  proof (cases "r = repo")
    case True
    with Cons.prems(2) show ?thesis by (simp add: unpack_repo_bad)
  next
    case False
    with Cons.prems have "repo \<in> set rs" by auto
    from Cons.IH [OF this Cons.prems(2)] show ?thesis
      by (auto split: sum.splits prod.splits)
  qed
qed

subsection \<open>The scan of the published artifacts\<close>

lemma scan_wheels_step_skip:
  assumes "2 \<le> length (name_fields f)" and "name_fields f ! 0 \<noteq> package_name"
  shows "scan_wheels package_name acc (f # fs) = scan_wheels package_name acc fs"
proof -
  obtain a b rest where "str_split CHR ''-'' f = a # b # rest"
    using fields_two [OF assms(1)] by (auto simp: name_fields_def)
  with assms(2) show ?thesis by (simp add: name_fields_def)
qed

lemma scan_wheels_step_match:
  assumes "2 \<le> length (name_fields f)" and "name_fields f ! 0 = package_name"
    and "name_fields f ! 1 \<noteq> []"
  shows "scan_wheels package_name acc (f # fs)
   = scan_wheels package_name (acc @ registered_forms (name_fields f ! 1)) fs"
proof -
  obtain a b rest where "str_split CHR ''-'' f = a # b # rest"
    using fields_two [OF assms(1)] by (auto simp: name_fields_def)
  with assms(2,3) show ?thesis
    by (cases b) (simp_all add: name_fields_def registered_forms_def)
qed

lemma scan_wheels_step_short:
  assumes "length (name_fields f) < 2"
  shows "scan_wheels package_name acc (f # fs) = Inl IndexError"
proof -
  obtain a where "str_split CHR ''-'' f = [a]"
    using fields_short [OF assms] by (auto simp: name_fields_def)
  then show ?thesis by simp
qed

lemma scan_wheels_step_empty:
  assumes "2 \<le> length (name_fields f)" and "name_fields f ! 0 = package_name"
    and "name_fields f ! 1 = []"
  shows "scan_wheels package_name acc (f # fs) = Inl IndexError"
proof -
  obtain a b rest where "str_split CHR ''-'' f = a # b # rest"
    using fields_two [OF assms(1)] by (auto simp: name_fields_def)
  with assms(2,3) show ?thesis by (simp add: name_fields_def)
qed

lemma scan_wheels_ok:
  "\<forall>f\<in>set filenames. 2 \<le> length (name_fields f) \<and> (name_fields f ! 0 = package_name \<longrightarrow> name_fields f ! 1 \<noteq> [])
   \<Longrightarrow> scan_wheels package_name acc filenames = Inr (acc @ existing_spec package_name filenames)"
proof (induction filenames arbitrary: acc)
  case Nil
  then show ?case by (simp add: existing_spec_def)
next
  case (Cons f fs)
  then have two: "2 \<le> length (name_fields f)" and ne: "name_fields f ! 0 = package_name \<longrightarrow> name_fields f ! 1 \<noteq> []"
    and rest: "\<forall>f\<in>set fs. 2 \<le> length (name_fields f) \<and> (name_fields f ! 0 = package_name \<longrightarrow> name_fields f ! 1 \<noteq> [])"
    by auto
  show ?case
  proof (cases "name_fields f ! 0 = package_name")
    case True
    with two ne Cons.IH [OF rest] show ?thesis
      by (simp add: scan_wheels_step_match existing_spec_def del: scan_wheels.simps)
  next
    case False
    with two Cons.IH [OF rest] show ?thesis
      by (simp add: scan_wheels_step_skip existing_spec_def del: scan_wheels.simps)
  qed
qed

lemma scan_wheels_bad:
  "f \<in> set filenames \<Longrightarrow>
   length (name_fields f) < 2 \<or> (name_fields f ! 0 = package_name \<and> name_fields f ! 1 = []) \<Longrightarrow>
   scan_wheels package_name acc filenames = Inl IndexError"
proof (induction filenames arbitrary: acc)
  case Nil
  then show ?case by simp
next
  case (Cons g gs)
  consider (short) "length (name_fields g) < 2"
    | (empty) "2 \<le> length (name_fields g)" "name_fields g ! 0 = package_name" "name_fields g ! 1 = []"
    | (match) "2 \<le> length (name_fields g)" "name_fields g ! 0 = package_name" "name_fields g ! 1 \<noteq> []"
    | (skip) "2 \<le> length (name_fields g)" "name_fields g ! 0 \<noteq> package_name"
    by linarith
  then show ?case
  proof cases
    case short
    then show ?thesis by (rule scan_wheels_step_short)
  next
    case empty
    then show ?thesis by (rule scan_wheels_step_empty)
  next
    case match
    with Cons.prems have "f \<in> set gs" by auto
    from Cons.IH [OF this Cons.prems(2)] match show ?thesis
      by (simp add: scan_wheels_step_match del: scan_wheels.simps)
  next
    case skip
    with Cons.prems have "f \<in> set gs" by auto
    from Cons.IH [OF this Cons.prems(2)] skip show ?thesis
      by (simp add: scan_wheels_step_skip del: scan_wheels.simps)
  qed
qed

lemma scan_wheels_Inr_wellformed:
  assumes "scan_wheels package_name acc filenames = Inr ex"
  shows "\<forall>f\<in>set filenames. 2 \<le> length (name_fields f) \<and> (name_fields f ! 0 = package_name \<longrightarrow> name_fields f ! 1 \<noteq> [])"
proof
  fix f assume f: "f \<in> set filenames"
  show "2 \<le> length (name_fields f) \<and> (name_fields f ! 0 = package_name \<longrightarrow> name_fields f ! 1 \<noteq> [])"
  proof (rule ccontr)
    assume "\<not> ?thesis"
    then have "length (name_fields f) < 2 \<or> (name_fields f ! 0 = package_name \<and> name_fields f ! 1 = [])"
      by auto
    from scan_wheels_bad [OF f this] assms show False by simp
  qed
qed

lemma scan_wheels_Inr_spec:
  "scan_wheels package_name acc filenames = Inr ex \<Longrightarrow> ex = acc @ existing_spec package_name filenames"
  using scan_wheels_ok [OF scan_wheels_Inr_wellformed] by fastforce

lemma scan_wheels_Inl: "scan_wheels package_name acc filenames = Inl e \<Longrightarrow> e = IndexError"
proof -
  assume a: "scan_wheels package_name acc filenames = Inl e"
  have "\<not> (\<forall>f\<in>set filenames. 2 \<le> length (name_fields f) \<and> (name_fields f ! 0 = package_name \<longrightarrow> name_fields f ! 1 \<noteq> []))"
    using scan_wheels_ok [of filenames package_name acc] a by auto
  then obtain f where "f \<in> set filenames"
    "length (name_fields f) < 2 \<or> (name_fields f ! 0 = package_name \<and> name_fields f ! 1 = [])"
    by (meson not_less)
  from scan_wheels_bad [OF this] a show ?thesis by simp
qed

lemma registered_forms_mem:
  "token \<in> set (registered_forms token)"
  "token = ch # rest \<Longrightarrow> isdigit ch \<Longrightarrow> CHR ''v'' # token \<in> set (registered_forms token)"
  by (auto simp: registered_forms_def split: list.splits)

lemma existing_spec_mem:
  "f \<in> set filenames \<Longrightarrow> name_fields f ! 0 = package_name \<Longrightarrow>
   set (registered_forms (name_fields f ! 1)) \<subseteq> set (existing_spec package_name filenames)"
  by (auto simp: existing_spec_def)

lemma scan_registers:
  assumes "scan_wheels package_name [] filenames = Inr scanned"
    and "filename \<in> set filenames" and "name_fields filename ! 0 = package_name"
  shows "name_fields filename ! 1 \<in> set scanned
         \<and> (isdigit (hd (name_fields filename ! 1)) \<longrightarrow> CHR ''v'' # name_fields filename ! 1 \<in> set scanned)"
proof -
  have s: "scanned = existing_spec package_name filenames"
    using scan_wheels_Inr_spec [OF assms(1)] by simp
  have ne: "name_fields filename ! 1 \<noteq> []"
    using scan_wheels_Inr_wellformed [OF assms(1)] assms(2,3) by blast
  then obtain ch rest where t: "name_fields filename ! 1 = ch # rest"
    by (cases "name_fields filename ! 1") auto
  have sub: "set (registered_forms (name_fields filename ! 1)) \<subseteq> set scanned"
    unfolding s by (rule existing_spec_mem [OF assms(2,3)])
  show ?thesis
    using sub registered_forms_mem(1) [of "name_fields filename ! 1"]
      registered_forms_mem(2) [OF t] t by auto
qed

lemma detect_existing_loop_other:
  "detect_existing_loop w names ev = Inr ev' \<Longrightarrow> package_name \<notin> set names \<Longrightarrow>
   ev' package_name = ev package_name"
  by (induction names arbitrary: ev) (auto split: sum.splits)

lemma detect_existing_loop_entry:
  "detect_existing_loop w names ev = Inr ev' \<Longrightarrow> package_name \<in> set names \<Longrightarrow>
   \<exists>ex. scan_wheels package_name [] (glob_whl w (package_path_from_package_name package_name)) = Inr ex
        \<and> ev' package_name = Some ex"
proof (induction names arbitrary: ev)
  case Nil
  then show ?case by simp
next
  case (Cons n ns)
  from Cons.prems(1) obtain ex where
    ex: "scan_wheels n [] (glob_whl w (package_path_from_package_name n)) = Inr ex"
    and loop: "detect_existing_loop w ns (ev(n \<mapsto> ex)) = Inr ev'"
    by (auto split: sum.splits)
  show ?case
  proof (cases "package_name \<in> set ns")
    case True
    from Cons.IH [OF loop True] show ?thesis .
  next
    case False
    with Cons.prems(2) have "package_name = n" by simp
    with detect_existing_loop_other [OF loop False] ex show ?thesis by simp
  qed
qed

lemma detect_existing_entry:
  assumes "detect_existing w b = Inr b'" and "package_name \<in> set (package_names b)"
  shows "existing_versions b' package_name
         = Some (existing_spec package_name (glob_whl w (package_path_from_package_name package_name)))"
proof -
  from assms(1) obtain ev where
    "detect_existing_loop w (package_names b) (existing_versions b) = Inr ev"
    and "existing_versions b' = ev"
    by (auto simp: detect_existing_def split: sum.splits)
  with detect_existing_loop_entry [OF this(1) assms(2)] scan_wheels_Inr_spec
  show ?thesis by fastforce
qed

subsection \<open>The index page of a package\<close>

lemma index_entries_step_short:
  assumes "length (name_fields f) < 2"
  shows "index_entries package_name out (f # fs) = Inl IndexError"
proof -
  obtain a where "str_split CHR ''-'' f = [a]"
    using fields_short [OF assms] by (auto simp: name_fields_def)
  then show ?thesis by simp
qed

lemma index_entries_step:
  assumes "2 \<le> length (name_fields f)"
  shows "index_entries package_name out (f # fs)
         = index_entries package_name
             (out @ (if name_fields f ! 0 = package_name
                     then wheel_line f (name_fields f ! 1) else [])) fs"
proof -
  obtain a b rest where "str_split CHR ''-'' f = a # b # rest"
    using fields_two [OF assms] by (auto simp: name_fields_def)
  then show ?thesis by (simp add: name_fields_def)
qed

lemma index_entries_ok:
  "\<forall>f\<in>set filenames. 2 \<le> length (name_fields f) \<Longrightarrow>
   index_entries package_name out filenames
   = Inr (out @ concat (map (\<lambda>filename. wheel_line filename (name_fields filename ! 1))
                         (filter (\<lambda>filename. name_fields filename ! 0 = package_name) filenames)))"
proof (induction filenames arbitrary: out)
  case Nil
  then show ?case by simp
next
  case (Cons f fs)
  then have two: "2 \<le> length (name_fields f)"
    and rest: "\<forall>f\<in>set fs. 2 \<le> length (name_fields f)"
    by auto
  show ?case
    using Cons.IH [OF rest] by (simp add: index_entries_step [OF two] del: index_entries.simps)
qed

lemma index_entries_bad:
  "f \<in> set filenames \<Longrightarrow> length (name_fields f) < 2 \<Longrightarrow>
   index_entries package_name out filenames = Inl IndexError"
proof (induction filenames arbitrary: out)
  case Nil
  then show ?case by simp
next
  case (Cons g gs)
  show ?case
  proof (cases "length (name_fields g) < 2")
    case True
    then show ?thesis by (rule index_entries_step_short)
  next
    case False
    then have two: "2 \<le> length (name_fields g)" by simp
    with Cons.prems have "f \<in> set gs" by auto
    from Cons.IH [OF this Cons.prems(2)] show ?thesis
      by (simp add: index_entries_step [OF two] del: index_entries.simps)
  qed
qed

lemma index_html_ok:
  assumes "\<forall>f\<in>set globbed. 2 \<le> length (name_fields f)"
  shows "index_html package_name globbed = Inr (index_spec package_name globbed)"
proof -
  from assms have "\<forall>f\<in>set (sort globbed). 2 \<le> length (name_fields f)" by simp
  from index_entries_ok [OF this] show ?thesis
    by (simp add: index_html_def index_spec_def indexed_files_def wheel_line_def
        listed_anchor_def html_header_def html_footer_def)
qed

lemma index_html_Inr_wellformed:
  assumes "index_html package_name globbed = Inr text"
  shows "\<forall>f\<in>set globbed. 2 \<le> length (name_fields f)"
proof
  fix f assume f: "f \<in> set globbed"
  show "2 \<le> length (name_fields f)"
  proof (rule ccontr)
    assume "\<not> ?thesis"
    then have "length (name_fields f) < 2" by simp
    moreover from f have "f \<in> set (sort globbed)" by simp
    ultimately have "index_entries package_name html_header (sort globbed) = Inl IndexError"
      by (rule index_entries_bad [rotated])
    with assms show False by (simp add: index_html_def)
  qed
qed

lemma index_html_Inr:
  "index_html package_name globbed = Inr text \<Longrightarrow> text = index_spec package_name globbed"
  using index_html_ok [OF index_html_Inr_wellformed] by fastforce

lemma create_index_written:
  assumes "create_index w package_name = Inr w'"
  shows "written w' (path_div (package_path_from_package_name package_name) ''index.html'')
         = Some (index_spec package_name
                   (glob_whl w (package_path_from_package_name package_name)))"
  using assms index_html_Inr
  by (fastforce simp: create_index_def Let_def split: option.splits sum.splits)

lemma indexed_files_props:
  "sorted (indexed_files package_name globbed)"
  "set (indexed_files package_name globbed)
   = {filename \<in> set globbed. name_fields filename ! 0 = package_name}"
  "distinct globbed \<Longrightarrow> distinct (indexed_files package_name globbed)"
  by (auto simp: indexed_files_def intro: sorted_wrt_filter)

lemma index_spec_line:
  assumes "filename \<in> set globbed" and "name_fields filename ! 0 = package_name"
  shows "\<exists>before after.
           index_spec package_name globbed
           = before @ ''    '' @ listed_anchor filename @ ''<br>'' @ [CHR 0x0A] @ after"
proof -
  from assms have "filename \<in> set (indexed_files package_name globbed)"
    by (simp add: indexed_files_def)
  then obtain xs ys where split: "indexed_files package_name globbed = xs @ filename # ys"
    by (auto dest: split_list)
  let ?line = "\<lambda>filename. ''    '' @ listed_anchor filename @ ''<br>'' @ [CHR 0x0A]"
  have "index_spec package_name globbed
        = (''<!DOCTYPE html>'' @ [CHR 0x0A] @ ''<html>'' @ [CHR 0x0A] @ ''  <body>'' @ [CHR 0x0A]
           @ concat (map ?line xs))
          @ ''    '' @ listed_anchor filename @ ''<br>'' @ [CHR 0x0A]
          @ (concat (map ?line ys) @ ''  </body>'' @ [CHR 0x0A] @ ''</html>'')"
    by (simp add: index_spec_def split)
  then show ?thesis by blast
qed

lemma close_over_shorter:
  "length present \<le> length buffered \<Longrightarrow> close_over buffered (Some present) = buffered"
  by (simp add: close_over_def)

lemma close_over_longer:
  "close_over buffered (Some (old @ tail)) = buffered @ tail" if "length old = length buffered"
  using that by (simp add: close_over_def)

subsection \<open>The example run\<close>

lemma demo_paths:
  "package_path_from_package_name ''foo'' = Path ''simple/foo''"
  "path_div (Path ''clones'') ''foo'' = Path ''clones/foo''"
  "pypi_root_directory = Path ''simple''"
  by (simp_all add: package_path_from_package_name_def
        pypi_root_directory_def path_div_def path_anchor_def path_parts_def Path_def)

lemma demo_detect:
  "detect_existing demo_world (demo_builder\<lparr>existing_versions := Map.empty\<rparr>) = Inr demo_builder"
  by (simp add: detect_existing_def demo_world_def demo_builder_def glob_whl_def endswith_def
      package_path_from_package_name_def pypi_root_directory_def path_div_def path_anchor_def
      path_parts_def Path_def isdigit_def)

lemma demo_init:
  "WheelhouseBuilder_init demo_world (load_config demo_world) = Inr demo_builder"
proof -
  have c: "load_config demo_world
           = [''repos'' \<mapsto> YSeq [''acme/foo''], ''clone_dir'' \<mapsto> YStr ''clones'']"
    by (simp add: load_config_def demo_world_def)
  have n: "package_names_of [''acme/foo''] = Inr [''foo'']"
    by (simp add: package_name_from_repo_def)
  have b: "\<lparr>repos_cfg = YSeq [''acme/foo''], clone_dir = Path ''clones'', package_names = [''foo''],
            existing_versions = Map.empty, needed_versions = Map.empty\<rparr>
           = demo_builder\<lparr>existing_versions := Map.empty\<rparr>"
    by (simp add: demo_builder_def)
  have m: "make_dirs demo_world (demo_builder\<lparr>existing_versions := Map.empty\<rparr>) = Inr ()"
    by (simp add: make_dirs_def demo_world_def demo_builder_def)
  show ?thesis
    unfolding c WheelhouseBuilder_init_def
    by (simp add: tuple_of_def n b m demo_detect del: package_names_of.simps)
qed

lemma demo_clone:
  "clone_repo demo_world demo_builder ''acme/foo''
   = Inr (demo_builder\<lparr>needed_versions := [''foo'' \<mapsto> [''v1.3.0'']]\<rparr>)"
  by (simp add: clone_repo_def demo_world_def demo_builder_def unpack2_def
      repo_owner_and_package_name_from_repo_def path_div_def path_anchor_def path_parts_def Path_def)

lemma demo_clone_repos:
  "clone_repos demo_world demo_builder
   = Inr (demo_builder\<lparr>needed_versions := [''foo'' \<mapsto> [''v1.3.0'']]\<rparr>)"
proof -
  have "repos demo_builder = [''acme/foo'']"
    by (simp add: repos_def tuple_of_def demo_builder_def)
  then show ?thesis by (simp add: clone_repos_def demo_clone)
qed

lemma demo_build_all:
  "build_all demo_world (demo_builder\<lparr>needed_versions := [''foo'' \<mapsto> [''v1.3.0'']]\<rparr>)
   = Inr (demo_world\<lparr>wheelhouse := (wheelhouse demo_world)
            (Path ''simple/foo'' := [''foo-1.2.3-py3-none-any.whl'', ''index.html'',
                                      ''foo-1.3.0-py3-none-any.whl''])\<rparr>)"
proof -
  let ?b = "demo_builder\<lparr>needed_versions := [''foo'' \<mapsto> [''v1.3.0'']]\<rparr>"
  have r: "repos ?b = [''acme/foo'']" and cd: "clone_dir ?b = Path ''clones''"
    and nv: "needed_versions ?b ''foo'' = Some [''v1.3.0'']"
    by (simp_all add: repos_def tuple_of_def demo_builder_def)
  have u: "unpack2 (repo_owner_and_package_name_from_repo ''acme/foo'') = Inr (''acme'', ''foo'')"
    by (simp add: unpack2_def repo_owner_and_package_name_from_repo_def)
  have pn: "path_name (Path ''clones/foo'') = ''foo''"
    by (simp add: path_name_def Path_def path_parts_def)
  have o: "\<And>a. outcome demo_world a = None" and pe: "\<And>p. path_exists demo_world p = False"
    and wh: "wheelhouse demo_world (Path ''simple/foo'')
             = [''foo-1.2.3-py3-none-any.whl'', ''index.html'']"
    by (simp_all add: demo_world_def)
  have e: "enumerate_break ''v1.3.0'' 0 None = Some 1"
    by (simp add: isdigit_def)
  have sr: "str_replace CHR ''-'' CHR ''_'' ''foo'' = ''foo''"
    by (simp add: str_replace_def)
  have fn: "path_name (path_div (Path ''clones/foo'') ''dist/foo-1.3.0-py3-none-any.whl'')
            = ''foo-1.3.0-py3-none-any.whl''"
    by (simp add: path_name_def path_div_def Path_def path_parts_def path_anchor_def)
  have bv: "build_versions demo_world (Path ''clones/foo'') ''foo'' None [''v1.3.0'']
            = Inr (demo_world\<lparr>wheelhouse := (wheelhouse demo_world)
                (Path ''simple/foo'' := [''foo-1.2.3-py3-none-any.whl'', ''index.html'',
                                          ''foo-1.3.0-py3-none-any.whl''])\<rparr>)"
    by (simp add: o pe e sr fn wh demo_paths add_entry_def Let_def del: enumerate_break.simps)
  show ?thesis
    by (simp add: build_all_def r u cd demo_paths build_and_copy_wheels_def pn nv bv
        del: build_versions.simps)
qed

lemma demo_sort:
  "sort [''foo-1.3.0-py3-none-any.whl'', ''bar-1.0-py3-none-any.whl'', ''foo-1.2.3-py3-none-any.whl'']
   = [''bar-1.0-py3-none-any.whl'', ''foo-1.2.3-py3-none-any.whl'', ''foo-1.3.0-py3-none-any.whl'']"
  by code_simp

lemma demo_create_indices:
  assumes w1: "w1 = demo_world\<lparr>wheelhouse := (wheelhouse demo_world)
            (Path ''simple/foo'' := [''foo-1.2.3-py3-none-any.whl'', ''index.html'',
                                      ''foo-1.3.0-py3-none-any.whl''])\<rparr>"
    and b: "package_names b = [''foo'']"
  shows "\<exists>w. create_indices w1 b = Inr w
           \<and> written w (Path ''simple/foo/index.html'')
               = Some (''<!DOCTYPE html>'' @ [CHR 0x0A] @ ''<html>'' @ [CHR 0x0A]
                       @ ''  <body>'' @ [CHR 0x0A]
                       @ ''    <a href='' @ [CHR 0x22] @ ''foo-1.2.3-py3-none-any.whl''
                       @ [CHR 0x22] @ ''>v1.2.3</a><br>'' @ [CHR 0x0A]
                       @ ''    <a href='' @ [CHR 0x22] @ ''foo-1.3.0-py3-none-any.whl''
                       @ [CHR 0x22] @ ''>v1.3.0</a><br>'' @ [CHR 0x0A]
                       @ ''  </body>'' @ [CHR 0x0A] @ ''</html>'')
           \<and> written w (Path ''simple/index.html'')
               = Some (''<!DOCTYPE html>'' @ [CHR 0x0A] @ ''<html>'' @ [CHR 0x0A]
                       @ ''  <body>'' @ [CHR 0x0A]
                       @ ''    <a href='' @ [CHR 0x22] @ ''foo/'' @ [CHR 0x22]
                       @ ''>foo</a><br>'' @ [CHR 0x0A]
                       @ ''  </body>'' @ [CHR 0x0A] @ ''</html>'')"
proof -
  let ?w0 = "w1\<lparr>wheelhouse := (wheelhouse w1)
                 (Path ''simple'' := add_entry ''index.html'' (wheelhouse w1 (Path ''simple''))),
               written := (written w1)(Path ''simple/index.html'' \<mapsto> [])\<rparr>"
  have p: "path_div (Path ''simple/foo'') ''index.html'' = Path ''simple/foo/index.html''"
    "path_div (Path ''simple'') ''index.html'' = Path ''simple/index.html''"
    "Path ''simple/foo/index.html'' \<noteq> Path ''simple/index.html''"
    "Path ''simple/foo'' \<noteq> Path ''simple''"
    by (simp_all add: path_div_def path_anchor_def path_parts_def Path_def)
  have o: "\<And>a. outcome w1 a = None" "\<And>a. outcome ?w0 a = None"
    and wh: "wheelhouse ?w0 (Path ''simple/foo'')
             = [''foo-1.2.3-py3-none-any.whl'', ''index.html'', ''foo-1.3.0-py3-none-any.whl'']"
    using p(4) by (simp_all add: w1 demo_world_def)
  have g: "glob_whl ?w0 (Path ''simple/foo'')
           = [''foo-1.2.3-py3-none-any.whl'', ''foo-1.3.0-py3-none-any.whl'']"
    unfolding glob_whl_def wh by (simp add: endswith_def)
  have s: "sort [''foo-1.2.3-py3-none-any.whl'', ''foo-1.3.0-py3-none-any.whl'']
           = [''foo-1.2.3-py3-none-any.whl'', ''foo-1.3.0-py3-none-any.whl'']"
    by code_simp
  have ih: "index_html ''foo'' [''foo-1.2.3-py3-none-any.whl'', ''foo-1.3.0-py3-none-any.whl'']
            = Inr (html_header @ wheel_line ''foo-1.2.3-py3-none-any.whl'' ''1.2.3''
                   @ wheel_line ''foo-1.3.0-py3-none-any.whl'' ''1.3.0'' @ html_footer)"
    unfolding index_html_def s by simp
  obtain w2 where ci: "create_index ?w0 ''foo'' = Inr w2"
    and wr: "written w2 (Path ''simple/foo/index.html'')
             = Some (html_header @ wheel_line ''foo-1.2.3-py3-none-any.whl'' ''1.2.3''
                     @ wheel_line ''foo-1.3.0-py3-none-any.whl'' ''1.3.0'' @ html_footer)"
    and wroot: "written w2 (Path ''simple/index.html'') = Some []"
    using p(3) by (simp add: create_index_def Let_def demo_paths g ih p(1) o)
  have "create_indices w1 b
        = Inr (w2\<lparr>written := (written w2)(Path ''simple/index.html'' \<mapsto>
                  close_over (html_header @ package_line ''foo'' @ html_footer) (Some []))\<rparr>)"
    by (simp add: create_indices_def Let_def demo_paths p(2) o(1) b ci wroot)
  then show ?thesis
    using wr p(3)
    by (simp add: close_over_def html_header_def html_footer_def wheel_line_def
        package_line_def)
qed

lemma demo_main:
  "\<exists>w. main demo_world = Inr w
       \<and> written w (Path ''simple/foo/index.html'')
           = Some (''<!DOCTYPE html>'' @ [CHR 0x0A] @ ''<html>'' @ [CHR 0x0A]
                   @ ''  <body>'' @ [CHR 0x0A]
                   @ ''    <a href='' @ [CHR 0x22] @ ''foo-1.2.3-py3-none-any.whl''
                   @ [CHR 0x22] @ ''>v1.2.3</a><br>'' @ [CHR 0x0A]
                   @ ''    <a href='' @ [CHR 0x22] @ ''foo-1.3.0-py3-none-any.whl''
                   @ [CHR 0x22] @ ''>v1.3.0</a><br>'' @ [CHR 0x0A]
                   @ ''  </body>'' @ [CHR 0x0A] @ ''</html>'')
       \<and> written w (Path ''simple/index.html'')
           = Some (''<!DOCTYPE html>'' @ [CHR 0x0A] @ ''<html>'' @ [CHR 0x0A]
                   @ ''  <body>'' @ [CHR 0x0A]
                   @ ''    <a href='' @ [CHR 0x22] @ ''foo/'' @ [CHR 0x22]
                   @ ''>foo</a><br>'' @ [CHR 0x0A]
                   @ ''  </body>'' @ [CHR 0x0A] @ ''</html>'')"
proof -
  have "package_names (demo_builder\<lparr>needed_versions := [''foo'' \<mapsto> [''v1.3.0'']]\<rparr>) = [''foo'']"
    by (simp add: demo_builder_def)
  from demo_create_indices [OF refl this] show ?thesis
    by (simp add: main_def demo_init demo_clone_repos demo_build_all)
qed

section \<open>Properties of the program\<close>

subsection \<open>Reconciliation\<close>

text \<open>
  Claim C1. The needed-versions output is exactly the tags that are absent from the
  package's existing versions, in the order of the tag list: the comprehension of line 92
  is the filter of the specification, it performs one membership test per tag, and after
  \<^verbatim>\<open>_clone_repo\<close> has returned for a repository the entry of its package in
  \<open>needed_versions\<close> is that filter of the repository's tags.
\<close>

theorem needed_versions_exact:
  "needed_of existing tags = needed_spec (set existing) tags
   \<and> needed_of_tests existing tags = length tags
   \<and> (clone_repo w b repo = Inr b'
        \<and> unpack2 (repo_owner_and_package_name_from_repo repo) = Inr (repo_owner, package_name)
        \<and> git_tag w (path_div (clone_dir b) package_name) = Inr available_versions
        \<and> existing_versions b package_name = Some published
      \<longrightarrow> needed_versions b' package_name
          = Some (needed_spec (set published) available_versions))"
  using clone_repo_needed [of w b repo b' repo_owner package_name available_versions published]
  by (simp add: needed_of_filter needed_of_tests_length)

theorem needed_versions_exact_witness:
  "clone_repo demo_world demo_builder ''acme/foo''
     = Inr (demo_builder\<lparr>needed_versions := [''foo'' \<mapsto> [''v1.3.0'']]\<rparr>)
   \<and> unpack2 (repo_owner_and_package_name_from_repo ''acme/foo'') = Inr (''acme'', ''foo'')
   \<and> git_tag demo_world (path_div (clone_dir demo_builder) ''foo'') = Inr [''v1.2.3'', ''v1.3.0'']
   \<and> existing_versions demo_builder ''foo'' = Some [''1.2.3'', ''v1.2.3'']
   \<and> needed_versions (demo_builder\<lparr>needed_versions := [''foo'' \<mapsto> [''v1.3.0'']]\<rparr>) ''foo''
       = Some (needed_spec {''1.2.3'', ''v1.2.3''} [''v1.2.3'', ''v1.3.0''])
   \<and> needed_spec {''1.2.3'', ''v1.2.3''} [''v1.2.3'', ''v1.3.0''] = [''v1.3.0'']
   \<and> needed_of_tests [''1.2.3'', ''v1.2.3''] [''v1.2.3'', ''v1.3.0''] = 2"
proof -
  have c: "clone_repo demo_world demo_builder ''acme/foo''
     = Inr (demo_builder\<lparr>needed_versions := [''foo'' \<mapsto> [''v1.3.0'']]\<rparr>)"
    by (rule demo_clone)
  have u: "unpack2 (repo_owner_and_package_name_from_repo ''acme/foo'') = Inr (''acme'', ''foo'')"
    by (simp add: unpack2_def repo_owner_and_package_name_from_repo_def)
  have g: "git_tag demo_world (path_div (clone_dir demo_builder) ''foo'') = Inr [''v1.2.3'', ''v1.3.0'']"
    by (simp add: demo_world_def)
  have e: "existing_versions demo_builder ''foo'' = Some [''1.2.3'', ''v1.2.3'']"
    by (simp add: demo_builder_def)
  have s: "needed_spec {''1.2.3'', ''v1.2.3''} [''v1.2.3'', ''v1.3.0''] = [''v1.3.0'']"
    by (simp add: needed_spec_def)
  from needed_versions_exact [of "[''1.2.3'', ''v1.2.3'']" "[''v1.2.3'', ''v1.3.0'']"
      demo_world demo_builder "''acme/foo''"
      "demo_builder\<lparr>needed_versions := [''foo'' \<mapsto> [''v1.3.0'']]\<rparr>" "''acme''" "''foo''"
      "[''v1.2.3'', ''v1.3.0'']" "[''1.2.3'', ''v1.2.3'']"] c u g e s
  show ?thesis by simp
qed

text \<open>
  Claim C2. The needed versions are a subset of the tag list and share no element with
  the existing versions; and for the existing versions that a scan has registered,
  neither the version field of a matching artifact nor (for a version that starts with a
  digit) its alias with the prefix character is among the needed versions.
\<close>

theorem needed_subset_and_disjoint:
  "set (needed_of existing tags) \<subseteq> set tags
   \<and> set (needed_of existing tags) \<inter> set existing = {}
   \<and> (scan_wheels package_name [] filenames = Inr scanned
        \<and> filename \<in> set filenames \<and> name_fields filename ! 0 = package_name
      \<longrightarrow> name_fields filename ! 1 \<notin> set (needed_of scanned tags)
          \<and> (isdigit (hd (name_fields filename ! 1))
               \<longrightarrow> CHR ''v'' # name_fields filename ! 1 \<notin> set (needed_of scanned tags)))"
  using scan_registers [of package_name filenames scanned filename]
  by (auto simp: set_needed_of)

theorem needed_subset_and_disjoint_witness:
  "scan_wheels ''foo'' [] [''foo-1.2.3-py3-none-any.whl''] = Inr [''1.2.3'', ''v1.2.3'']
   \<and> ''foo-1.2.3-py3-none-any.whl'' \<in> set [''foo-1.2.3-py3-none-any.whl'']
   \<and> name_fields ''foo-1.2.3-py3-none-any.whl'' ! 0 = ''foo''
   \<and> name_fields ''foo-1.2.3-py3-none-any.whl'' ! 1 = ''1.2.3''
   \<and> isdigit (hd ''1.2.3'')
   \<and> ''1.2.3'' \<notin> set (needed_of [''1.2.3'', ''v1.2.3''] [''1.2.3'', ''v1.2.3'', ''v1.3.0''])
   \<and> ''v1.2.3'' \<notin> set (needed_of [''1.2.3'', ''v1.2.3''] [''1.2.3'', ''v1.2.3'', ''v1.3.0''])
   \<and> set (needed_of [''1.2.3'', ''v1.2.3''] [''1.2.3'', ''v1.2.3'', ''v1.3.0''])
        \<subseteq> set [''1.2.3'', ''v1.2.3'', ''v1.3.0'']
   \<and> set (needed_of [''1.2.3'', ''v1.2.3''] [''1.2.3'', ''v1.2.3'', ''v1.3.0''])
        \<inter> set [''1.2.3'', ''v1.2.3''] = {}"
proof -
  have s: "scan_wheels ''foo'' [] [''foo-1.2.3-py3-none-any.whl''] = Inr [''1.2.3'', ''v1.2.3'']"
    by (simp add: isdigit_def)
  have f: "name_fields ''foo-1.2.3-py3-none-any.whl'' ! 0 = ''foo''
           \<and> name_fields ''foo-1.2.3-py3-none-any.whl'' ! 1 = ''1.2.3''"
    by (simp add: name_fields_def)
  have d: "isdigit (hd ''1.2.3'')"
    by (simp add: isdigit_def)
  from needed_subset_and_disjoint [of "[''1.2.3'', ''v1.2.3'']" "[''1.2.3'', ''v1.2.3'', ''v1.3.0'']"
      "''foo''" "[''foo-1.2.3-py3-none-any.whl'']" "[''1.2.3'', ''v1.2.3'']"
      "''foo-1.2.3-py3-none-any.whl''"] s f d
  show ?thesis by simp
qed

text \<open>
  Claim C5. Reconciliation is idempotent. Running \<^verbatim>\<open>_clone_repo\<close> again on the state
  it returned (same existing versions, same tags) returns the same state, so the same
  needed list; and once every needed version has been added to the existing versions, by
  whatever means, reconciling the same tags gives the empty list.
\<close>

theorem reconciliation_idempotent:
  "(clone_repo w b repo = Inr b' \<longrightarrow> clone_repo w b' repo = Inr b')
   \<and> (set existing \<union> set (needed_of existing tags) \<subseteq> set built
      \<longrightarrow> needed_of built tags = [])
   \<and> needed_of (existing @ needed_of existing tags) tags = []"
  using clone_repo_idem [of w b repo b']
  by (auto simp: needed_of_Nil_iff set_needed_of)

theorem reconciliation_idempotent_witness:
  "clone_repo demo_world demo_builder ''acme/foo''
     = Inr (demo_builder\<lparr>needed_versions := [''foo'' \<mapsto> [''v1.3.0'']]\<rparr>)
   \<and> clone_repo demo_world (demo_builder\<lparr>needed_versions := [''foo'' \<mapsto> [''v1.3.0'']]\<rparr>) ''acme/foo''
     = Inr (demo_builder\<lparr>needed_versions := [''foo'' \<mapsto> [''v1.3.0'']]\<rparr>)
   \<and> needed_of [''0.9.0''] [''0.9.0'', ''1.0.0'', ''1.0.1''] = [''1.0.0'', ''1.0.1'']
   \<and> set [''0.9.0''] \<union> set (needed_of [''0.9.0''] [''0.9.0'', ''1.0.0'', ''1.0.1''])
        \<subseteq> set [''1.0.1'', ''1.0.0'', ''0.9.0'']
   \<and> needed_of [''1.0.1'', ''1.0.0'', ''0.9.0''] [''0.9.0'', ''1.0.0'', ''1.0.1''] = []"
proof -
  have n: "needed_of [''0.9.0''] [''0.9.0'', ''1.0.0'', ''1.0.1''] = [''1.0.0'', ''1.0.1'']"
    by simp
  from reconciliation_idempotent [of demo_world demo_builder "''acme/foo''"
      "demo_builder\<lparr>needed_versions := [''foo'' \<mapsto> [''v1.3.0'']]\<rparr>"
      "[''0.9.0'']" "[''0.9.0'', ''1.0.0'', ''1.0.1'']" "[''1.0.1'', ''1.0.0'', ''0.9.0'']"]
    demo_clone n
  show ?thesis by simp
qed

text \<open>
  Claim C6. When no tag is among the existing versions, the needed list is the whole tag
  list, in its order.
\<close>

theorem disjoint_needs_every_tag:
  "set existing \<inter> set tags = {} \<Longrightarrow> needed_of existing tags = tags"
  by (simp add: needed_of_all_iff)

theorem disjoint_needs_every_tag_witness:
  "set [''0.9.0'', ''v0.9.0''] \<inter> set [''1.0.0'', ''1.1.0'', ''2.0.0''] = {}
   \<and> needed_of [''0.9.0'', ''v0.9.0''] [''1.0.0'', ''1.1.0'', ''2.0.0'']
       = [''1.0.0'', ''1.1.0'', ''2.0.0'']"
proof -
  have d: "set [''0.9.0'', ''v0.9.0''] \<inter> set [''1.0.0'', ''1.1.0'', ''2.0.0''] = {}"
    by simp
  from disjoint_needs_every_tag [OF d] d show ?thesis by simp
qed

subsection \<open>Scanning the published artifacts\<close>

text \<open>
  Claim C3. Scanning a package's artifact filenames takes the second field of the split
  on the delimiter as the version token of every file whose first field is the package
  name, and registers the token and, when the token starts with a digit, the token with
  \<open>v\<close> in front: when every filename has two fields and every matching one a non-empty
  version, the scan returns exactly that list; whenever the scan returns, both forms are
  in its result; and \<^verbatim>\<open>_detect_existing\<close> stores that list under the package name.
\<close>

theorem scan_registers_both_forms:
  "((\<forall>filename\<in>set filenames.
        2 \<le> length (name_fields filename)
        \<and> (name_fields filename ! 0 = package_name \<longrightarrow> name_fields filename ! 1 \<noteq> []))
      \<longrightarrow> scan_wheels package_name [] filenames = Inr (existing_spec package_name filenames))
   \<and> (scan_wheels package_name [] filenames = Inr scanned
      \<longrightarrow> scanned = existing_spec package_name filenames
          \<and> (\<forall>filename\<in>set filenames.
                name_fields filename ! 0 = package_name
                \<longrightarrow> name_fields filename ! 1 \<in> set scanned
                    \<and> (isdigit (hd (name_fields filename ! 1))
                         \<longrightarrow> CHR ''v'' # name_fields filename ! 1 \<in> set scanned)))
   \<and> (detect_existing w b = Inr b' \<and> package_name \<in> set (package_names b)
      \<longrightarrow> existing_versions b' package_name
          = Some (existing_spec package_name
                    (glob_whl w (package_path_from_package_name package_name))))"
  using scan_wheels_ok [of filenames package_name "[]"]
    scan_wheels_Inr_spec [of package_name "[]" filenames scanned]
    scan_registers [of package_name filenames scanned]
    detect_existing_entry [of w b b' package_name]
  by simp

theorem scan_registers_both_forms_witness:
  "list_all (\<lambda>filename. 2 \<le> length (name_fields filename)
                \<and> (name_fields filename ! 0 = ''foo'' \<longrightarrow> name_fields filename ! 1 \<noteq> []))
      [''foo-1.2.3-py3-none-any.whl'', ''foo-rc1-py3-none-any.whl'',
       ''bar-2.0.0-py3-none-any.whl'']
   \<and> scan_wheels ''foo'' [] [''foo-1.2.3-py3-none-any.whl'', ''foo-rc1-py3-none-any.whl'',
                              ''bar-2.0.0-py3-none-any.whl'']
       = Inr [''1.2.3'', ''v1.2.3'', ''rc1'']
   \<and> existing_spec ''foo'' [''foo-1.2.3-py3-none-any.whl'', ''foo-rc1-py3-none-any.whl'',
                              ''bar-2.0.0-py3-none-any.whl'']
       = [''1.2.3'', ''v1.2.3'', ''rc1'']
   \<and> detect_existing demo_world (demo_builder\<lparr>existing_versions := Map.empty\<rparr>) = Inr demo_builder
   \<and> ''foo'' \<in> set (package_names (demo_builder\<lparr>existing_versions := Map.empty\<rparr>))
   \<and> existing_versions demo_builder ''foo''
       = Some (existing_spec ''foo'' (glob_whl demo_world (package_path_from_package_name ''foo'')))
   \<and> existing_versions demo_builder ''foo'' = Some [''1.2.3'', ''v1.2.3'']"
proof -
  let ?fs = "[''foo-1.2.3-py3-none-any.whl'', ''foo-rc1-py3-none-any.whl'',
              ''bar-2.0.0-py3-none-any.whl'']"
  have wf: "\<forall>filename\<in>set ?fs.
      2 \<le> length (name_fields filename)
      \<and> (name_fields filename ! 0 = ''foo'' \<longrightarrow> name_fields filename ! 1 \<noteq> [])"
    by (simp add: name_fields_def)
  have sp: "existing_spec ''foo'' ?fs = [''1.2.3'', ''v1.2.3'', ''rc1'']"
    by (simp add: existing_spec_def name_fields_def registered_forms_def isdigit_def)
  have pn: "''foo'' \<in> set (package_names (demo_builder\<lparr>existing_versions := Map.empty\<rparr>))"
    by (simp add: demo_builder_def)
  have ev: "existing_versions demo_builder ''foo'' = Some [''1.2.3'', ''v1.2.3'']"
    by (simp add: demo_builder_def)
  from scan_registers_both_forms [of ?fs "''foo''" "[''1.2.3'', ''v1.2.3'', ''rc1'']"
      demo_world "demo_builder\<lparr>existing_versions := Map.empty\<rparr>" demo_builder]
    wf sp pn ev demo_detect
  show ?thesis by (simp add: list_all_iff)
qed

text \<open>
  Claim C7. Scanning the single artifact \<^verbatim>\<open>foo-1.2.3-py3-none-any.whl\<close> for package
  \<^verbatim>\<open>foo\<close> registers \<^verbatim>\<open>1.2.3\<close> and \<^verbatim>\<open>v1.2.3\<close>, and reconciling these with the tags
  \<^verbatim>\<open>v1.2.3\<close>, \<^verbatim>\<open>v1.3.0\<close> leaves \<^verbatim>\<open>v1.3.0\<close> alone; so do \<^verbatim>\<open>_detect_existing\<close> and
  \<^verbatim>\<open>_clone_repo\<close> in the example world, whose package directory holds that artifact
  and whose repository has those tags.
\<close>

theorem alias_matching_example:
  "scan_wheels ''foo'' [] [''foo-1.2.3-py3-none-any.whl''] = Inr [''1.2.3'', ''v1.2.3'']
   \<and> set [''1.2.3'', ''v1.2.3''] = {''1.2.3'', ''v1.2.3''}
   \<and> needed_of [''1.2.3'', ''v1.2.3''] [''v1.2.3'', ''v1.3.0''] = [''v1.3.0'']
   \<and> detect_existing demo_world (demo_builder\<lparr>existing_versions := Map.empty\<rparr>)
       = Inr demo_builder
   \<and> existing_versions demo_builder ''foo'' = Some [''1.2.3'', ''v1.2.3'']
   \<and> clone_repo demo_world demo_builder ''acme/foo''
       = Inr (demo_builder\<lparr>needed_versions := [''foo'' \<mapsto> [''v1.3.0'']]\<rparr>)"
proof -
  have "existing_versions demo_builder ''foo'' = Some [''1.2.3'', ''v1.2.3'']"
    by (simp add: demo_builder_def)
  then show ?thesis
    by (simp add: isdigit_def demo_detect demo_clone)
qed

text \<open>
  Claim C8, as stated, fails: an artifact whose version field is empty and whose first
  field is another package's name is passed over, and the scan returns normally.
\<close>

theorem empty_version_skipped_counterexample:
  "name_fields ''bar--py3-none-any.whl'' = [''bar'', [], ''py3'', ''none'', ''any.whl'']
   \<and> scan_wheels ''foo'' [] [''bar--py3-none-any.whl''] = Inr []"
  by (simp add: name_fields_def)

text \<open>
  Claim C8, amended. During the existing-versions scan, a filename with fewer than two
  fields, or with an empty version field and the package's name as its first field,
  makes the scan raise IndexError, whatever comes after it; a filename with at least two
  fields and another first field is passed over, whatever its version field; and
  IndexError is the only error the scan raises.
\<close>

theorem scan_malformed_amended:
  "(filename \<in> set filenames \<and> length (name_fields filename) < 2
      \<longrightarrow> scan_wheels package_name acc filenames = Inl IndexError)
   \<and> (filename \<in> set filenames \<and> 2 \<le> length (name_fields filename)
        \<and> name_fields filename ! 0 = package_name \<and> name_fields filename ! 1 = []
      \<longrightarrow> scan_wheels package_name acc filenames = Inl IndexError)
   \<and> (2 \<le> length (name_fields filename) \<and> name_fields filename ! 0 \<noteq> package_name
      \<longrightarrow> scan_wheels package_name acc (filename # filenames)
          = scan_wheels package_name acc filenames)
   \<and> (scan_wheels package_name acc filenames = Inl e \<longrightarrow> e = IndexError)"
  using scan_wheels_bad [of filename filenames package_name acc]
    scan_wheels_step_skip [of filename package_name acc filenames]
    scan_wheels_Inl [of package_name acc filenames e]
  by auto

theorem scan_malformed_amended_witness:
  "length (name_fields ''foo.whl'') < 2
   \<and> scan_wheels ''foo'' [] [''foo-1.0-py3-none-any.whl'', ''foo.whl''] = Inl IndexError
   \<and> 2 \<le> length (name_fields ''foo--py3-none-any.whl'')
   \<and> name_fields ''foo--py3-none-any.whl'' ! 0 = ''foo''
   \<and> name_fields ''foo--py3-none-any.whl'' ! 1 = []
   \<and> scan_wheels ''foo'' [] [''foo--py3-none-any.whl''] = Inl IndexError
   \<and> name_fields ''bar--py3-none-any.whl'' ! 0 \<noteq> ''foo''
   \<and> scan_wheels ''foo'' [] [''bar--py3-none-any.whl'', ''foo-1.0-py3-none-any.whl'']
       = scan_wheels ''foo'' [] [''foo-1.0-py3-none-any.whl'']"
proof -
  have a: "length (name_fields ''foo.whl'') < 2"
    by (simp add: name_fields_def)
  have b: "2 \<le> length (name_fields ''foo--py3-none-any.whl'')
           \<and> name_fields ''foo--py3-none-any.whl'' ! 0 = ''foo''
           \<and> name_fields ''foo--py3-none-any.whl'' ! 1 = []"
    by (simp add: name_fields_def)
  have c: "2 \<le> length (name_fields ''bar--py3-none-any.whl'')
           \<and> name_fields ''bar--py3-none-any.whl'' ! 0 \<noteq> ''foo''"
    by (simp add: name_fields_def)
  from scan_malformed_amended [of "''foo.whl''" "[''foo-1.0-py3-none-any.whl'', ''foo.whl'']"
         "''foo''" "[]" IndexError]
       scan_malformed_amended [of "''foo--py3-none-any.whl''" "[''foo--py3-none-any.whl'']"
         "''foo''" "[]" IndexError]
       scan_malformed_amended [of "''bar--py3-none-any.whl''" "[''foo-1.0-py3-none-any.whl'']"
         "''foo''" "[]" IndexError]
       a b c
  show ?thesis by simp
qed

subsection \<open>Index pages\<close>

text \<open>
  Claim C9. The index page of a package is, character for character, the three opening
  lines, then for every globbed artifact whose first field is the package name, in the
  sorted order of the filenames, the line that holds (after four spaces, and before a
  line break element) the anchor with the filename as target and \<open>v\<close> followed by the
  filename's second field as text, then the two closing lines; an artifact with another
  first field has no line. The page is written whenever every artifact name has two
  fields, which holds for every list of names that the scan of \<^verbatim>\<open>_detect_existing\<close>
  has accepted, and it is what \<^verbatim>\<open>_create_index\<close> leaves in the package's
  \<^verbatim>\<open>index.html\<close>.
\<close>

theorem package_index_lists_matching_artifacts:
  "((\<forall>filename\<in>set globbed. 2 \<le> length (name_fields filename))
      \<longrightarrow> index_html package_name globbed
          = Inr (''<!DOCTYPE html>'' @ [CHR 0x0A] @ ''<html>'' @ [CHR 0x0A]
                 @ ''  <body>'' @ [CHR 0x0A]
                 @ concat (map (\<lambda>filename.
                                  ''    <a href='' @ [CHR 0x22] @ filename @ [CHR 0x22]
                                  @ ''>v'' @ name_fields filename ! 1 @ ''</a><br>''
                                  @ [CHR 0x0A])
                             (indexed_files package_name globbed))
                 @ ''  </body>'' @ [CHR 0x0A] @ ''</html>'')
          \<and> index_html package_name globbed = Inr (index_spec package_name globbed))
   \<and> (scan_wheels package_name [] globbed = Inr scanned
      \<longrightarrow> index_html package_name globbed = Inr (index_spec package_name globbed))
   \<and> (create_index w package_name = Inr w'
      \<longrightarrow> written w' (path_div (package_path_from_package_name package_name) ''index.html'')
          = Some (index_spec package_name
                    (glob_whl w (package_path_from_package_name package_name))))
   \<and> (filename \<in> set globbed \<and> name_fields filename ! 0 = package_name
      \<longrightarrow> (\<exists>before after.
             index_spec package_name globbed
             = before
               @ ''    <a href='' @ [CHR 0x22] @ filename @ [CHR 0x22]
               @ ''>v'' @ name_fields filename ! 1 @ ''</a><br>'' @ [CHR 0x0A]
               @ after))
   \<and> sorted (indexed_files package_name globbed)
   \<and> set (indexed_files package_name globbed)
       = {filename \<in> set globbed. name_fields filename ! 0 = package_name}
   \<and> (distinct globbed \<longrightarrow> distinct (indexed_files package_name globbed))"
proof -
  have scanned: "index_html package_name globbed = Inr (index_spec package_name globbed)"
    if "scan_wheels package_name [] globbed = Inr scanned"
    using scan_wheels_Inr_wellformed [OF that] by (intro index_html_ok) blast
  have literal: "index_spec package_name globbed
      = ''<!DOCTYPE html>'' @ [CHR 0x0A] @ ''<html>'' @ [CHR 0x0A] @ ''  <body>'' @ [CHR 0x0A]
        @ concat (map (\<lambda>filename.
                         ''    <a href='' @ [CHR 0x22] @ filename @ [CHR 0x22]
                         @ ''>v'' @ name_fields filename ! 1 @ ''</a><br>'' @ [CHR 0x0A])
                    (indexed_files package_name globbed))
        @ ''  </body>'' @ [CHR 0x0A] @ ''</html>''"
    by (simp add: index_spec_def listed_anchor_def)
  have line: "\<exists>before after.
             index_spec package_name globbed
             = before
               @ ''    <a href='' @ [CHR 0x22] @ filename @ [CHR 0x22]
               @ ''>v'' @ name_fields filename ! 1 @ ''</a><br>'' @ [CHR 0x0A]
               @ after"
    if "filename \<in> set globbed" "name_fields filename ! 0 = package_name"
    using index_spec_line [OF that] by (simp add: listed_anchor_def)
  show ?thesis
    using index_html_ok [where globbed=globbed and package_name=package_name]
      create_index_written [where w=w and package_name=package_name and w'=w']
      indexed_files_props [where package_name=package_name and globbed=globbed]
      scanned line
    unfolding literal [symmetric]
    by blast
qed

theorem package_index_lists_matching_artifacts_witness:
  "list_all (\<lambda>filename. 2 \<le> length (name_fields filename))
     [''foo-1.3.0-py3-none-any.whl'', ''bar-1.0-py3-none-any.whl'', ''foo-1.2.3-py3-none-any.whl'']
   \<and> distinct [''foo-1.3.0-py3-none-any.whl'', ''bar-1.0-py3-none-any.whl'',
               ''foo-1.2.3-py3-none-any.whl'']
   \<and> indexed_files ''foo''
        [''foo-1.3.0-py3-none-any.whl'', ''bar-1.0-py3-none-any.whl'', ''foo-1.2.3-py3-none-any.whl'']
       = [''foo-1.2.3-py3-none-any.whl'', ''foo-1.3.0-py3-none-any.whl'']
   \<and> index_html ''foo''
        [''foo-1.3.0-py3-none-any.whl'', ''bar-1.0-py3-none-any.whl'', ''foo-1.2.3-py3-none-any.whl'']
       = Inr (''<!DOCTYPE html>'' @ [CHR 0x0A] @ ''<html>'' @ [CHR 0x0A]
              @ ''  <body>'' @ [CHR 0x0A]
              @ ''    <a href='' @ [CHR 0x22] @ ''foo-1.2.3-py3-none-any.whl'' @ [CHR 0x22]
              @ ''>v1.2.3</a><br>'' @ [CHR 0x0A]
              @ ''    <a href='' @ [CHR 0x22] @ ''foo-1.3.0-py3-none-any.whl'' @ [CHR 0x22]
              @ ''>v1.3.0</a><br>'' @ [CHR 0x0A]
              @ ''  </body>'' @ [CHR 0x0A] @ ''</html>'')
   \<and> scan_wheels ''foo'' []
        [''foo-1.3.0-py3-none-any.whl'', ''bar-1.0-py3-none-any.whl'', ''foo-1.2.3-py3-none-any.whl'']
       = Inr [''1.3.0'', ''v1.3.0'', ''1.2.3'', ''v1.2.3'']
   \<and> create_index demo_world ''foo''
       = Inr (demo_world\<lparr>wheelhouse := (wheelhouse demo_world)
                (Path ''simple/foo'' := [''foo-1.2.3-py3-none-any.whl'', ''index.html'']),
              written := [Path ''simple/foo/index.html'' \<mapsto>
                ''<!DOCTYPE html>'' @ [CHR 0x0A] @ ''<html>'' @ [CHR 0x0A]
                @ ''  <body>'' @ [CHR 0x0A]
                @ ''    <a href='' @ [CHR 0x22] @ ''foo-1.2.3-py3-none-any.whl'' @ [CHR 0x22]
                @ ''>v1.2.3</a><br>'' @ [CHR 0x0A]
                @ ''  </body>'' @ [CHR 0x0A] @ ''</html>'']\<rparr>)
   \<and> written (demo_world\<lparr>wheelhouse := (wheelhouse demo_world)
                (Path ''simple/foo'' := [''foo-1.2.3-py3-none-any.whl'', ''index.html'']),
              written := [Path ''simple/foo/index.html'' \<mapsto>
                ''<!DOCTYPE html>'' @ [CHR 0x0A] @ ''<html>'' @ [CHR 0x0A]
                @ ''  <body>'' @ [CHR 0x0A]
                @ ''    <a href='' @ [CHR 0x22] @ ''foo-1.2.3-py3-none-any.whl'' @ [CHR 0x22]
                @ ''>v1.2.3</a><br>'' @ [CHR 0x0A]
                @ ''  </body>'' @ [CHR 0x0A] @ ''</html>'']\<rparr>)
        (path_div (package_path_from_package_name ''foo'') ''index.html'')
       = Some (index_spec ''foo'' (glob_whl demo_world (package_path_from_package_name ''foo'')))"
proof -
  let ?g = "[''foo-1.3.0-py3-none-any.whl'', ''bar-1.0-py3-none-any.whl'',
             ''foo-1.2.3-py3-none-any.whl'']"
  let ?page = "''<!DOCTYPE html>'' @ [CHR 0x0A] @ ''<html>'' @ [CHR 0x0A]
                @ ''  <body>'' @ [CHR 0x0A]
                @ ''    <a href='' @ [CHR 0x22] @ ''foo-1.2.3-py3-none-any.whl'' @ [CHR 0x22]
                @ ''>v1.2.3</a><br>'' @ [CHR 0x0A]
                @ ''  </body>'' @ [CHR 0x0A] @ ''</html>''"
  have wf: "\<forall>filename\<in>set ?g. 2 \<le> length (name_fields filename)"
    by (simp add: name_fields_def)
  have d: "distinct ?g" by simp
  have f: "indexed_files ''foo'' ?g
           = [''foo-1.2.3-py3-none-any.whl'', ''foo-1.3.0-py3-none-any.whl'']"
    unfolding indexed_files_def demo_sort by (simp add: name_fields_def)
  have v: "name_fields ''foo-1.2.3-py3-none-any.whl'' ! 1 = ''1.2.3''"
    "name_fields ''foo-1.3.0-py3-none-any.whl'' ! 1 = ''1.3.0''"
    by (simp_all add: name_fields_def)
  have sc: "scan_wheels ''foo'' [] ?g = Inr [''1.3.0'', ''v1.3.0'', ''1.2.3'', ''v1.2.3'']"
    by (simp add: isdigit_def)
  have pp: "package_path_from_package_name ''foo'' = Path ''simple/foo''"
    by (rule demo_paths)
  have wh: "wheelhouse demo_world (Path ''simple/foo'')
            = [''foo-1.2.3-py3-none-any.whl'', ''index.html'']"
    by (simp add: demo_world_def)
  have g: "glob_whl demo_world (Path ''simple/foo'') = [''foo-1.2.3-py3-none-any.whl'']"
    by (simp add: glob_whl_def wh endswith_def)
  have ih: "index_html ''foo'' [''foo-1.2.3-py3-none-any.whl''] = Inr ?page"
    by (simp add: index_html_def html_header_def html_footer_def wheel_line_def)
  have p: "path_div (Path ''simple/foo'') ''index.html'' = Path ''simple/foo/index.html''"
    by (simp add: path_div_def path_anchor_def path_parts_def Path_def)
  have oc: "outcome demo_world (OpenWrite (Path ''simple/foo/index.html'')) = None"
    and wr: "written demo_world = Map.empty"
    by (simp_all add: demo_world_def)
  have ci: "create_index demo_world ''foo''
       = Inr (demo_world\<lparr>wheelhouse := (wheelhouse demo_world)
                (Path ''simple/foo'' := [''foo-1.2.3-py3-none-any.whl'', ''index.html'']),
              written := [Path ''simple/foo/index.html'' \<mapsto> ?page]\<rparr>)"
    by (simp add: create_index_def Let_def pp g ih p oc wr wh add_entry_def)
  from package_index_lists_matching_artifacts [of ?g "''foo''"
      "[''1.3.0'', ''v1.3.0'', ''1.2.3'', ''v1.2.3'']" demo_world
      "demo_world\<lparr>wheelhouse := (wheelhouse demo_world)
                (Path ''simple/foo'' := [''foo-1.2.3-py3-none-any.whl'', ''index.html'']),
              written := [Path ''simple/foo/index.html'' \<mapsto> ?page]\<rparr>"
      "''foo-1.2.3-py3-none-any.whl''"]
    wf d f v sc ci
  show ?thesis by (simp add: list_all_iff)
qed

subsection \<open>Repository identifiers\<close>

text \<open>
  Claim C10. The package name is derived from any repository identifier, but a
  repository identifier that does not contain exactly one \<^verbatim>\<open>/\<close> makes
  \<^verbatim>\<open>_clone_repo\<close> raise ValueError whatever the world and the builder are, so before
  any git command, tag listing or reconciliation; the loop body of \<^verbatim>\<open>build_all\<close>
  raises the same way, and neither \<^verbatim>\<open>clone_repos\<close> nor \<^verbatim>\<open>build_all\<close> returns
  normally when such an identifier is among the repositories.
\<close>

theorem malformed_repo_raises_before_tags:
  "length (filter (\<lambda>c. c = CHR ''/'') repo) \<noteq> 1 \<Longrightarrow>
     package_name_from_repo repo = Inr (last (str_split CHR ''/'' repo))
     \<and> clone_repo w b repo = Inl ValueError
     \<and> build_all_loop w b (repo # rest) = Inl ValueError
     \<and> (repo \<in> set (repos b)
        \<longrightarrow> (\<exists>e. clone_repos w b = Inl e) \<and> (\<exists>e. build_all w b = Inl e))"
  using clone_repos_loop_bad [of repo "repos b" w b] build_all_loop_bad [of repo "repos b" w b]
  by (simp add: package_name_from_repo_total clone_repo_bad build_all_loop_bad_head
      clone_repos_def build_all_def del: build_all_loop.simps)

theorem malformed_repo_raises_before_tags_witness:
  "length (filter (\<lambda>c. c = CHR ''/'') ''foo'') = 0
   \<and> package_name_from_repo ''foo'' = Inr ''foo''
   \<and> clone_repo demo_world (demo_builder\<lparr>repos_cfg := YSeq [''foo'']\<rparr>) ''foo'' = Inl ValueError
   \<and> build_all_loop demo_world (demo_builder\<lparr>repos_cfg := YSeq [''foo'']\<rparr>) [''foo'']
       = Inl ValueError
   \<and> ''foo'' \<in> set (repos (demo_builder\<lparr>repos_cfg := YSeq [''foo'']\<rparr>))
   \<and> clone_repos demo_world (demo_builder\<lparr>repos_cfg := YSeq [''foo'']\<rparr>) = Inl ValueError
   \<and> length (filter (\<lambda>c. c = CHR ''/'') ''acme/tools/foo'') = 2
   \<and> package_name_from_repo ''acme/tools/foo'' = Inr ''foo''
   \<and> clone_repo demo_world demo_builder ''acme/tools/foo'' = Inl ValueError"
proof -
  have a: "length (filter (\<lambda>c. c = CHR ''/'') ''foo'') \<noteq> 1" by simp
  have b: "length (filter (\<lambda>c. c = CHR ''/'') ''acme/tools/foo'') \<noteq> 1" by simp
  have r: "''foo'' \<in> set (repos (demo_builder\<lparr>repos_cfg := YSeq [''foo'']\<rparr>))"
    by (simp add: repos_def tuple_of_def)
  have c: "clone_repos demo_world (demo_builder\<lparr>repos_cfg := YSeq [''foo'']\<rparr>) = Inl ValueError"
    by (simp add: clone_repos_def repos_def tuple_of_def clone_repo_def unpack2_def
        repo_owner_and_package_name_from_repo_def)
  from malformed_repo_raises_before_tags [OF a, of demo_world
         "demo_builder\<lparr>repos_cfg := YSeq [''foo'']\<rparr>" "[]"]
       malformed_repo_raises_before_tags [OF b, of demo_world demo_builder "[]"]
       r c
  show ?thesis by simp
qed

subsection \<open>A missing configuration file\<close>

text \<open>
  Claim C4 says that a run without a configuration file is a run that does nothing. The
  code does take the empty dictionary as the configuration, but the constructor then
  subscripts it with \<^verbatim>\<open>'repos'\<close>: the run ends with KeyError.
\<close>

theorem main_raises_without_config:
  "load_config (w\<lparr>config_file := None\<rparr>) = Map.empty
   \<and> WheelhouseBuilder_init (w\<lparr>config_file := None\<rparr>) Map.empty = Inl KeyError
   \<and> main (w\<lparr>config_file := None\<rparr>) = Inl KeyError"
  by (simp add: main_def load_config_def WheelhouseBuilder_init_def)

end
